theory Spec2Isabelle
  imports Main
begin

section \<open>MCore thread wrappers (src/core/thread/thread.c)\<close>

text \<open>
  The file wraps the POSIX thread calls. Each wrapper is embedded as a function from the
  state of the process to its return value and the state afterwards. The pthread
  library, the allocator and the logging facility are not part of the file: what each
  underlying call answers is taken from a \<open>platform\<close>, a record of outcome functions
  that may depend on the whole state, and every theorem below holds for every platform.
\<close>

subsection \<open>C types\<close>

text \<open>
  \<open>int_t\<close> carries status codes only: they are compared with zero and with \<open>ESRCH\<close>,
  never computed with. Pointers are addresses, \<open>NULL\<close> is address zero.
\<close>

type_synonym int_t = int
type_synonym size_t = nat
type_synonym ptr = nat
type_synonym pthread_t = nat

definition NULL :: ptr where
  "NULL = 0"

definition ESRCH :: int_t where
  \<comment> \<open>errno.h: no such process\<close>
  "ESRCH = 3"

datatype cancelstate = PTHREAD_CANCEL_ENABLE | PTHREAD_CANCEL_DISABLE

record pthread_attr_t =
  stacksize :: size_t

text \<open>A thread that \<open>pthread_create\<close> has started and that has not been joined.\<close>

record thread_rec =
  tid :: pthread_t
  start_routine :: ptr
  arg :: ptr
  stack :: size_t

subsection \<open>The state of the process\<close>

text \<open>One underlying call, with its arguments and the status or pointer it answered.\<close>

datatype call =
    Pthread_attr_init int_t
  | Pthread_attr_setstacksize size_t int_t
  | Pthread_create ptr ptr ptr int_t
  | Pthread_attr_destroy
  | Pthread_join pthread_t ptr int_t
  | Pthread_kill pthread_t int_t int_t
  | Pthread_cancel pthread_t int_t
  | Pthread_setcancelstate cancelstate
  | Mm_alloc size_t ptr
  | Mm_free ptr

type_synonym log_entry = "string \<times> int"

record sys =
  thread_stack_size :: size_t        \<comment> \<open>\<open>magma_core.system.thread_stack_size\<close>\<close>
  mclog :: "log_entry list"          \<comment> \<open>what the logging facility has received, oldest first\<close>
  calls :: "call list"               \<comment> \<open>the underlying calls made so far, oldest first\<close>
  live_attrs :: nat                  \<comment> \<open>attribute objects initialised and not yet destroyed\<close>
  threads :: "thread_rec list"
  allocated :: "ptr set"             \<comment> \<open>blocks handed out by \<open>mm_alloc\<close> and not yet freed\<close>
  mem :: "ptr \<rightharpoonup> nat"               \<comment> \<open>what has been stored through pointers\<close>
  cancelstate :: cancelstate         \<comment> \<open>cancelability of the calling thread\<close>

record platform =
  sizeof_pthread_t :: size_t
  default_stacksize :: size_t
  attr_init_status :: "sys \<Rightarrow> int_t"
  attr_setstacksize_status :: "sys \<Rightarrow> size_t \<Rightarrow> int_t"
  create_outcome :: "sys \<Rightarrow> pthread_attr_t \<Rightarrow> ptr \<Rightarrow> ptr \<Rightarrow> int_t \<times> pthread_t"
  join_outcome :: "sys \<Rightarrow> pthread_t \<Rightarrow> int_t \<times> nat"
  kill_status :: "sys \<Rightarrow> pthread_t \<Rightarrow> int_t \<Rightarrow> int_t"
  cancel_status :: "sys \<Rightarrow> pthread_t \<Rightarrow> int_t"
  alloc_outcome :: "sys \<Rightarrow> size_t \<Rightarrow> ptr"

subsection \<open>The underlying calls\<close>

text \<open>
  Each call appends itself to \<open>calls\<close> and has the effect POSIX gives it: a successful
  \<open>pthread_attr_init\<close> leaves one more live attribute object, \<open>pthread_attr_destroy\<close>
  one less; a successful \<open>pthread_create\<close> starts a thread with the attributes passed
  and stores its id through the first argument; a successful \<open>pthread_join\<close> ends the
  thread's life as a joinable thread and stores its exit value through the second
  argument unless that is \<open>NULL\<close>. A failed call changes nothing else. The status of
  \<open>pthread_attr_destroy\<close> is discarded wherever the file calls it, so the model of that
  call answers none.
\<close>

definition pthread_attr_init :: "platform \<Rightarrow> sys \<Rightarrow> (int_t \<times> pthread_attr_t) \<times> sys" where
  "pthread_attr_init p s =
     (let r = attr_init_status p s in
      ((r, \<lparr>stacksize = default_stacksize p\<rparr>),
       s\<lparr>calls := calls s @ [Pthread_attr_init r],
         live_attrs := (if r = 0 then Suc (live_attrs s) else live_attrs s)\<rparr>))"

definition pthread_attr_setstacksize ::
    "platform \<Rightarrow> pthread_attr_t \<Rightarrow> size_t \<Rightarrow> sys \<Rightarrow> (int_t \<times> pthread_attr_t) \<times> sys" where
  "pthread_attr_setstacksize p a n s =
     (let r = attr_setstacksize_status p s n in
      ((r, if r = 0 then a\<lparr>stacksize := n\<rparr> else a),
       s\<lparr>calls := calls s @ [Pthread_attr_setstacksize n r]\<rparr>))"

definition pthread_create ::
    "platform \<Rightarrow> ptr \<Rightarrow> pthread_attr_t \<Rightarrow> ptr \<Rightarrow> ptr \<Rightarrow> sys \<Rightarrow> int_t \<times> sys" where
  "pthread_create p thread a function data s =
     (case create_outcome p s a function data of (r, t) \<Rightarrow>
        (r, if r = 0
            then s\<lparr>calls := calls s @ [Pthread_create thread function data r],
                   threads := threads s @
                     [\<lparr>tid = t, start_routine = function, arg = data, stack = stacksize a\<rparr>],
                   mem := (mem s)(thread \<mapsto> t)\<rparr>
            else s\<lparr>calls := calls s @ [Pthread_create thread function data r]\<rparr>))"

definition pthread_attr_destroy :: "pthread_attr_t \<Rightarrow> sys \<Rightarrow> sys" where
  "pthread_attr_destroy a s =
     s\<lparr>calls := calls s @ [Pthread_attr_destroy], live_attrs := live_attrs s - 1\<rparr>"

definition pthread_join :: "platform \<Rightarrow> pthread_t \<Rightarrow> ptr \<Rightarrow> sys \<Rightarrow> int_t \<times> sys" where
  "pthread_join p thread retval s =
     (case join_outcome p s thread of (r, v) \<Rightarrow>
        (r, s\<lparr>calls := calls s @ [Pthread_join thread retval r],
              threads := (if r = 0 then filter (\<lambda>x. tid x \<noteq> thread) (threads s)
                          else threads s),
              mem := (if r = 0 \<and> retval \<noteq> NULL then (mem s)(retval \<mapsto> v) else mem s)\<rparr>))"

definition pthread_kill :: "platform \<Rightarrow> pthread_t \<Rightarrow> int_t \<Rightarrow> sys \<Rightarrow> int_t \<times> sys" where
  "pthread_kill p thread signal s =
     (let r = kill_status p s thread signal in
      (r, s\<lparr>calls := calls s @ [Pthread_kill thread signal r]\<rparr>))"

definition pthread_cancel :: "platform \<Rightarrow> pthread_t \<Rightarrow> sys \<Rightarrow> int_t \<times> sys" where
  "pthread_cancel p thread s =
     (let r = cancel_status p s thread in
      (r, s\<lparr>calls := calls s @ [Pthread_cancel thread r]\<rparr>))"

text \<open>
  Both callers pass one of the two valid states and \<open>NULL\<close> for the old state, so the
  call sets the state and answers zero.
\<close>

definition pthread_setcancelstate :: "cancelstate \<Rightarrow> sys \<Rightarrow> int_t \<times> sys" where
  "pthread_setcancelstate st s =
     (0, s\<lparr>calls := calls s @ [Pthread_setcancelstate st], cancelstate := st\<rparr>)"

text \<open>
  Modelled from the spec: \<open>mm_alloc\<close>, the generic allocator behind \<open>thread_alloc\<close>'s
  handle storage, is defined outside this file. It answers a block of the size asked
  for, or \<open>NULL\<close> when storage cannot be obtained.
\<close>

definition mm_alloc :: "platform \<Rightarrow> size_t \<Rightarrow> sys \<Rightarrow> ptr \<times> sys" where
  "mm_alloc p n s =
     (let a = alloc_outcome p s n in
      (a, s\<lparr>calls := calls s @ [Mm_alloc n a],
            allocated := (if a = NULL then allocated s else insert a (allocated s))\<rparr>))"

text \<open>
  Modelled from the spec: \<open>mm_free\<close>, defined outside this file, releases the block it
  is given.
\<close>

definition mm_free :: "ptr \<Rightarrow> sys \<Rightarrow> sys" where
  "mm_free a s = s\<lparr>calls := calls s @ [Mm_free a], allocated := allocated s - {a}\<rparr>"

text \<open>
  Modelled from the spec: \<open>mclog_pedantic\<close>, the diagnostic logging macro, is defined
  outside this file. It is given a human-readable message and the numeric status code of
  the failed operation, and records them.
\<close>

definition mclog_pedantic :: "string \<Rightarrow> int \<Rightarrow> sys \<Rightarrow> sys" where
  "mclog_pedantic fmt v s = s\<lparr>mclog := mclog s @ [(fmt, v)]\<rparr>"

subsection \<open>The wrappers\<close>

definition thread_launch :: "platform \<Rightarrow> ptr \<Rightarrow> ptr \<Rightarrow> ptr \<Rightarrow> sys \<Rightarrow> int_t \<times> sys" where
  "thread_launch p thread function data s =
     (case pthread_attr_init p s of ((result, attributes), s1) \<Rightarrow>
        if result \<noteq> 0 then
          (result,
           mclog_pedantic
             ''Could not initialize the thread attribute structure. {pthread_attr_init = %i}''
             result s1)
        else
          (case pthread_attr_setstacksize p attributes (thread_stack_size s1) s1 of
             ((result, attributes), s2) \<Rightarrow>
               if result \<noteq> 0 then
                 (result,
                  pthread_attr_destroy attributes
                    (mclog_pedantic
                       ''Could not set the stack size correctly. {pthread_attr_setstacksize = %i}''
                       result s2))
               else
                 (case pthread_create p thread attributes function data s2 of
                    (result, s3) \<Rightarrow>
                      if result \<noteq> 0 then
                        (result,
                         pthread_attr_destroy attributes
                           (mclog_pedantic
                              ''Could not initialize a new thread. {pthread_create = %i}''
                              result s3))
                      else (result, pthread_attr_destroy attributes s3))))"

definition thread_alloc :: "platform \<Rightarrow> ptr \<Rightarrow> ptr \<Rightarrow> sys \<Rightarrow> ptr \<times> sys" where
  "thread_alloc p function data s =
     (case mm_alloc p (sizeof_pthread_t p) s of (result, s1) \<Rightarrow>
        if result = NULL then
          (NULL,
           mclog_pedantic ''Could not allocate %zu bytes to hold the pthread_t structure.''
             (int (sizeof_pthread_t p)) s1)
        else
          (case thread_launch p result function data s1 of (ret, s2) \<Rightarrow>
             if ret \<noteq> 0 then
               (NULL,
                mm_free result
                  (mclog_pedantic
                     ''An error occurred while attempting to spawn the thread. {thread_init = %i}''
                     ret s2))
             else (result, s2)))"

definition thread_join :: "platform \<Rightarrow> pthread_t \<Rightarrow> sys \<Rightarrow> int_t \<times> sys" where
  "thread_join p thread s =
     (case pthread_join p thread NULL s of (ret, s1) \<Rightarrow>
        (ret,
         if ret \<noteq> 0 then
           mclog_pedantic ''Could not join to the requested thread. { pthread_join = %i }'' ret s1
         else s1))"

definition thread_result :: "platform \<Rightarrow> pthread_t \<Rightarrow> ptr \<Rightarrow> sys \<Rightarrow> int_t \<times> sys" where
  "thread_result p thread result s =
     (case pthread_join p thread result s of (ret, s1) \<Rightarrow>
        (ret,
         if ret \<noteq> 0 then
           mclog_pedantic ''Could not join to the requested thread. { pthread_join = %i }'' ret s1
         else s1))"

definition thread_signal :: "platform \<Rightarrow> pthread_t \<Rightarrow> int_t \<Rightarrow> sys \<Rightarrow> int_t \<times> sys" where
  "thread_signal p thread signal s = pthread_kill p thread signal s"

text \<open>
  \<open>thread_cancel\<close> has two bodies, chosen at build time by \<open>#ifdef MAGMA_PEDANTIC\<close>; the
  first argument says which one was compiled.
\<close>

definition thread_cancel :: "bool \<Rightarrow> platform \<Rightarrow> pthread_t \<Rightarrow> sys \<Rightarrow> int_t \<times> sys" where
  "thread_cancel MAGMA_PEDANTIC p thread s =
     (if MAGMA_PEDANTIC then
        (case pthread_cancel p thread s of (result, s1) \<Rightarrow>
           (result,
            if result \<noteq> 0 \<and> result \<noteq> ESRCH then
              mclog_pedantic ''Could not cancel the requested thread. {pthread_cancel = %i}''
                result s1
            else s1))
      else pthread_cancel p thread s)"

definition thread_cancel_enable :: "sys \<Rightarrow> unit \<times> sys" where
  "thread_cancel_enable s = ((), snd (pthread_setcancelstate PTHREAD_CANCEL_ENABLE s))"

definition thread_cancel_disable :: "sys \<Rightarrow> unit \<times> sys" where
  "thread_cancel_disable s = ((), snd (pthread_setcancelstate PTHREAD_CANCEL_DISABLE s))"

subsection \<open>What one invocation added\<close>

definition new_calls :: "sys \<Rightarrow> sys \<Rightarrow> call list" where
  "new_calls s s' = drop (length (calls s)) (calls s')"

definition new_log :: "sys \<Rightarrow> sys \<Rightarrow> log_entry list" where
  "new_log s s' = drop (length (mclog s)) (mclog s')"

subsection \<open>The states \<open>thread_launch\<close> passes through\<close>

text \<open>
  The state after a successful \<open>pthread_attr_init\<close>, and after a successful
  \<open>pthread_attr_setstacksize\<close> following it: the platform answers the next call from
  there.
\<close>

definition after_init :: "sys \<Rightarrow> sys" where
  "after_init s = s\<lparr>calls := calls s @ [Pthread_attr_init 0], live_attrs := Suc (live_attrs s)\<rparr>"

definition after_setstacksize :: "sys \<Rightarrow> sys" where
  "after_setstacksize s =
     s\<lparr>calls := calls s @ [Pthread_attr_init 0, Pthread_attr_setstacksize (thread_stack_size s) 0],
       live_attrs := Suc (live_attrs s)\<rparr>"

subsection \<open>The failure classes of the specification\<close>

text \<open>
  The specification names the failures of \<open>launch\<close> by the step that failed. This
  reading of a sequence of calls follows its words: the class is that of the first
  underlying call that answered a non-zero status, and carries that status.
\<close>

datatype launch_error =
    AttributeInitError int_t
  | AttributeConfigError int_t
  | CreateError int_t

fun failed_step :: "call list \<Rightarrow> launch_error option" where
  "failed_step [] = None"
| "failed_step (Pthread_attr_init r # cs) =
     (if r \<noteq> 0 then Some (AttributeInitError r) else failed_step cs)"
| "failed_step (Pthread_attr_setstacksize n r # cs) =
     (if r \<noteq> 0 then Some (AttributeConfigError r) else failed_step cs)"
| "failed_step (Pthread_create t f d r # cs) =
     (if r \<noteq> 0 then Some (CreateError r) else failed_step cs)"
| "failed_step (c # cs) = failed_step cs"

fun status_of :: "launch_error \<Rightarrow> int_t" where
  "status_of (AttributeInitError r) = r"
| "status_of (AttributeConfigError r) = r"
| "status_of (CreateError r) = r"

text \<open>
  The diagnostic \<open>thread_launch\<close> writes for each class: the message names the
  underlying call, the argument is its status.
\<close>

fun diagnostic :: "launch_error \<Rightarrow> log_entry" where
  "diagnostic (AttributeInitError r) =
     (''Could not initialize the thread attribute structure. {pthread_attr_init = %i}'', r)"
| "diagnostic (AttributeConfigError r) =
     (''Could not set the stack size correctly. {pthread_attr_setstacksize = %i}'', r)"
| "diagnostic (CreateError r) =
     (''Could not initialize a new thread. {pthread_create = %i}'', r)"

text \<open>
  The same classes read from the environment instead: the first of the three steps that
  the platform answers with a non-zero status, each asked in the state in which
  \<open>thread_launch\<close> reaches it, or none when the platform answers zero to all three.
\<close>

definition launch_failure :: "platform \<Rightarrow> ptr \<Rightarrow> ptr \<Rightarrow> sys \<Rightarrow> launch_error option" where
  "launch_failure p function data s =
     (if attr_init_status p s \<noteq> 0
      then Some (AttributeInitError (attr_init_status p s))
      else if attr_setstacksize_status p (after_init s) (thread_stack_size s) \<noteq> 0
      then Some (AttributeConfigError
                   (attr_setstacksize_status p (after_init s) (thread_stack_size s)))
      else if fst (create_outcome p (after_setstacksize s)
                     \<lparr>stacksize = thread_stack_size s\<rparr> function data) \<noteq> 0
      then Some (CreateError
                   (fst (create_outcome p (after_setstacksize s)
                           \<lparr>stacksize = thread_stack_size s\<rparr> function data)))
      else None)"

text \<open>The C function a call in the sequence is a call of.\<close>

fun called :: "call \<Rightarrow> string" where
  "called (Pthread_attr_init r) = ''pthread_attr_init''"
| "called (Pthread_attr_setstacksize n r) = ''pthread_attr_setstacksize''"
| "called (Pthread_create t f d r) = ''pthread_create''"
| "called Pthread_attr_destroy = ''pthread_attr_destroy''"
| "called (Pthread_join t v r) = ''pthread_join''"
| "called (Pthread_kill t g r) = ''pthread_kill''"
| "called (Pthread_cancel t r) = ''pthread_cancel''"
| "called (Pthread_setcancelstate st) = ''pthread_setcancelstate''"
| "called (Mm_alloc n a) = ''mm_alloc''"
| "called (Mm_free a) = ''mm_free''"

text \<open>
  The comment in \<open>thread_cancel\<close> reads: \<open>ESRCH\<close> is returned if the thread has already
  exited. That is the answer of the platform by which a wrapper can tell that the target
  has terminated.
\<close>

definition target_already_exited :: "platform \<Rightarrow> sys \<Rightarrow> pthread_t \<Rightarrow> bool" where
  "target_already_exited p s thread \<longleftrightarrow> cancel_status p s thread = ESRCH"

subsection \<open>A concrete process and concrete platforms\<close>

definition sys0 :: sys where
  "sys0 = \<lparr>thread_stack_size = 1048576, mclog = [], calls = [], live_attrs = 0,
           threads = [], allocated = {}, mem = Map.empty,
           cancelstate = PTHREAD_CANCEL_ENABLE\<rparr>"

text \<open>
  \<open>plat a b c j k x m\<close> answers \<open>a\<close> to \<open>pthread_attr_init\<close>, \<open>b\<close> to
  \<open>pthread_attr_setstacksize\<close>, \<open>c\<close> to \<open>pthread_create\<close> (the new thread has id 42),
  \<open>j\<close> to \<open>pthread_join\<close> (the exit value is 99), \<open>k\<close> to \<open>pthread_kill\<close>, \<open>x\<close> to
  \<open>pthread_cancel\<close> and the block \<open>m\<close> to \<open>mm_alloc\<close>.
\<close>

definition plat :: "int_t \<Rightarrow> int_t \<Rightarrow> int_t \<Rightarrow> int_t \<Rightarrow> int_t \<Rightarrow> int_t \<Rightarrow> ptr \<Rightarrow> platform" where
  "plat a b c j k x m =
     \<lparr>sizeof_pthread_t = 8, default_stacksize = 8388608,
      attr_init_status = (\<lambda>s. a),
      attr_setstacksize_status = (\<lambda>s n. b),
      create_outcome = (\<lambda>s at f d. (c, 42)),
      join_outcome = (\<lambda>s t. (j, 99)),
      kill_status = (\<lambda>s t g. k),
      cancel_status = (\<lambda>s t. x),
      alloc_outcome = (\<lambda>s n. m)\<rparr>"

section \<open>Properties\<close>

subsection \<open>The four paths of \<open>thread_launch\<close>\<close>

lemma thread_launch_init_fails:
  assumes "attr_init_status p s = r" "r \<noteq> 0"
  shows "thread_launch p thread function data s =
    (r, s\<lparr>mclog := mclog s @
            [(''Could not initialize the thread attribute structure. {pthread_attr_init = %i}'', r)],
          calls := calls s @ [Pthread_attr_init r]\<rparr>)"
  using assms by (simp add: thread_launch_def pthread_attr_init_def mclog_pedantic_def)

lemma thread_stack_size_after_init [simp]:
  "thread_stack_size (after_init s) = thread_stack_size s"
  by (simp add: after_init_def)

lemma pthread_attr_init_ok:
  "attr_init_status p s = 0 \<Longrightarrow>
   pthread_attr_init p s = ((0, \<lparr>stacksize = default_stacksize p\<rparr>), after_init s)"
  by (simp add: pthread_attr_init_def after_init_def)

lemma pthread_attr_setstacksize_ok:
  assumes "attr_setstacksize_status p (after_init s) (thread_stack_size s) = 0"
  shows "pthread_attr_setstacksize p \<lparr>stacksize = d\<rparr> (thread_stack_size s) (after_init s) =
    ((0, \<lparr>stacksize = thread_stack_size s\<rparr>), after_setstacksize s)"
proof -
  have "(after_init s)\<lparr>calls := calls (after_init s) @
          [Pthread_attr_setstacksize (thread_stack_size s) 0]\<rparr> = after_setstacksize s"
    by (simp add: after_init_def after_setstacksize_def)
  with assms show ?thesis
    by (simp add: pthread_attr_setstacksize_def)
qed

lemma thread_launch_setstacksize_fails:
  assumes "attr_init_status p s = 0"
    and "attr_setstacksize_status p (after_init s) (thread_stack_size s) = r" and "r \<noteq> 0"
  shows "thread_launch p thread function data s =
        (r, s\<lparr>mclog := mclog s @
              [(''Could not set the stack size correctly. {pthread_attr_setstacksize = %i}'', r)],
             calls := calls s @ [Pthread_attr_init 0,
               Pthread_attr_setstacksize (thread_stack_size s) r, Pthread_attr_destroy]\<rparr>)"
proof -
  have "thread_launch p thread function data s =
    (r, pthread_attr_destroy \<lparr>stacksize = default_stacksize p\<rparr>
          (mclog_pedantic
             ''Could not set the stack size correctly. {pthread_attr_setstacksize = %i}'' r
             ((after_init s)\<lparr>calls := calls (after_init s) @
                [Pthread_attr_setstacksize (thread_stack_size s) r]\<rparr>)))"
    using assms(2,3)
    by (simp add: thread_launch_def pthread_attr_init_ok [OF assms(1)]
        pthread_attr_setstacksize_def)
  then show ?thesis
    by (simp add: pthread_attr_destroy_def mclog_pedantic_def after_init_def)
qed

lemma thread_launch_create_fails:
  assumes "attr_init_status p s = 0"
    and "attr_setstacksize_status p (after_init s) (thread_stack_size s) = 0"
    and "create_outcome p (after_setstacksize s) \<lparr>stacksize = thread_stack_size s\<rparr> function data
          = (r, t)" and "r \<noteq> 0"
  shows "thread_launch p thread function data s =
        (r, s\<lparr>mclog := mclog s @
              [(''Could not initialize a new thread. {pthread_create = %i}'', r)],
             calls := calls s @ [Pthread_attr_init 0,
               Pthread_attr_setstacksize (thread_stack_size s) 0,
               Pthread_create thread function data r, Pthread_attr_destroy]\<rparr>)"
proof -
  have "thread_launch p thread function data s =
    (r, pthread_attr_destroy \<lparr>stacksize = thread_stack_size s\<rparr>
          (mclog_pedantic ''Could not initialize a new thread. {pthread_create = %i}'' r
             ((after_setstacksize s)\<lparr>calls := calls (after_setstacksize s) @
                [Pthread_create thread function data r]\<rparr>)))"
    using assms(3,4)
    by (simp add: thread_launch_def pthread_attr_init_ok [OF assms(1)]
        pthread_attr_setstacksize_ok [OF assms(2)] pthread_create_def)
  then show ?thesis
    by (simp add: pthread_attr_destroy_def mclog_pedantic_def after_setstacksize_def)
qed

lemma thread_launch_succeeds:
  assumes "attr_init_status p s = 0"
    and "attr_setstacksize_status p (after_init s) (thread_stack_size s) = 0"
    and "create_outcome p (after_setstacksize s) \<lparr>stacksize = thread_stack_size s\<rparr> function data
          = (0, t)"
  shows "thread_launch p thread function data s =
        (0, s\<lparr>calls := calls s @ [Pthread_attr_init 0,
               Pthread_attr_setstacksize (thread_stack_size s) 0,
               Pthread_create thread function data 0, Pthread_attr_destroy],
             threads := threads s @
               [\<lparr>tid = t, start_routine = function, arg = data, stack = thread_stack_size s\<rparr>],
             mem := (mem s)(thread \<mapsto> t)\<rparr>)"
proof -
  have "thread_launch p thread function data s =
    (0, pthread_attr_destroy \<lparr>stacksize = thread_stack_size s\<rparr>
          ((after_setstacksize s)\<lparr>calls := calls (after_setstacksize s) @
                [Pthread_create thread function data 0],
             threads := threads (after_setstacksize s) @
               [\<lparr>tid = t, start_routine = function, arg = data, stack = thread_stack_size s\<rparr>],
             mem := (mem (after_setstacksize s))(thread \<mapsto> t)\<rparr>))"
    using assms(3)
    by (simp add: thread_launch_def pthread_attr_init_ok [OF assms(1)]
        pthread_attr_setstacksize_ok [OF assms(2)] pthread_create_def)
  then show ?thesis
    by (simp add: pthread_attr_destroy_def after_setstacksize_def)
qed

lemma thread_launch_cases [case_names init_failed setstacksize_failed create_failed launched]:
  obtains
    r where "r \<noteq> 0"
      "thread_launch p thread function data s =
        (r, s\<lparr>mclog := mclog s @
              [(''Could not initialize the thread attribute structure. {pthread_attr_init = %i}'', r)],
             calls := calls s @ [Pthread_attr_init r]\<rparr>)"
  | r where "r \<noteq> 0"
      "thread_launch p thread function data s =
        (r, s\<lparr>mclog := mclog s @
              [(''Could not set the stack size correctly. {pthread_attr_setstacksize = %i}'', r)],
             calls := calls s @ [Pthread_attr_init 0,
               Pthread_attr_setstacksize (thread_stack_size s) r, Pthread_attr_destroy]\<rparr>)"
  | r where "r \<noteq> 0"
      "thread_launch p thread function data s =
        (r, s\<lparr>mclog := mclog s @
              [(''Could not initialize a new thread. {pthread_create = %i}'', r)],
             calls := calls s @ [Pthread_attr_init 0,
               Pthread_attr_setstacksize (thread_stack_size s) 0,
               Pthread_create thread function data r, Pthread_attr_destroy]\<rparr>)"
  | t where
      "thread_launch p thread function data s =
        (0, s\<lparr>calls := calls s @ [Pthread_attr_init 0,
               Pthread_attr_setstacksize (thread_stack_size s) 0,
               Pthread_create thread function data 0, Pthread_attr_destroy],
             threads := threads s @
               [\<lparr>tid = t, start_routine = function, arg = data, stack = thread_stack_size s\<rparr>],
             mem := (mem s)(thread \<mapsto> t)\<rparr>)"
proof (cases "attr_init_status p s = 0")
  case False
  with thread_launch_init_fails [OF refl False] show thesis
    by (rule_tac that(1))
next
  case init_ok: True
  show thesis
  proof (cases "attr_setstacksize_status p (after_init s) (thread_stack_size s) = 0")
    case False
    with thread_launch_setstacksize_fails [OF init_ok refl False] show thesis
      by (rule_tac that(2))
  next
    case set_ok: True
    obtain r t where c:
      "create_outcome p (after_setstacksize s) \<lparr>stacksize = thread_stack_size s\<rparr> function data
        = (r, t)"
      by (cases "create_outcome p (after_setstacksize s) \<lparr>stacksize = thread_stack_size s\<rparr>
                   function data")
    show thesis
    proof (cases "r = 0")
      case False
      with thread_launch_create_fails [OF init_ok set_ok c False] show thesis
        by (rule_tac that(3))
    next
      case True
      with thread_launch_succeeds [OF init_ok set_ok c [unfolded True]] show thesis
        by (rule_tac that(4))
    qed
  qed
qed

subsection \<open>Reading off what an invocation added\<close>

lemma new_calls_append [simp]: "calls s' = calls s @ cs \<Longrightarrow> new_calls s s' = cs"
  by (simp add: new_calls_def)

lemma new_log_append [simp]: "mclog s' = mclog s @ es \<Longrightarrow> new_log s s' = es"
  by (simp add: new_log_def)

lemma new_log_same [simp]: "mclog s' = mclog s \<Longrightarrow> new_log s s' = []"
  by (simp add: new_log_def)

subsection \<open>\<open>thread_launch\<close> at concrete platforms\<close>

lemmas launch_eval = thread_launch_def pthread_attr_init_def pthread_attr_setstacksize_def
  pthread_create_def pthread_attr_destroy_def mclog_pedantic_def plat_def sys0_def

lemma launch_init_fails_at_sys0:
  "thread_launch (plat 12 0 0 0 0 0 0) 100 200 300 sys0 =
     (12, sys0\<lparr>mclog :=
             [(''Could not initialize the thread attribute structure. {pthread_attr_init = %i}'', 12)],
           calls := [Pthread_attr_init 12]\<rparr>)"
  by (simp add: launch_eval)

lemma launch_setstacksize_fails_at_sys0:
  "thread_launch (plat 0 22 0 0 0 0 0) 100 200 300 sys0 =
     (22, sys0\<lparr>mclog :=
             [(''Could not set the stack size correctly. {pthread_attr_setstacksize = %i}'', 22)],
           calls := [Pthread_attr_init 0, Pthread_attr_setstacksize 1048576 22,
             Pthread_attr_destroy]\<rparr>)"
  by (simp add: launch_eval)

lemma launch_create_fails_at_sys0:
  "thread_launch (plat 0 0 11 0 0 0 0) 100 200 300 sys0 =
     (11, sys0\<lparr>mclog := [(''Could not initialize a new thread. {pthread_create = %i}'', 11)],
           calls := [Pthread_attr_init 0, Pthread_attr_setstacksize 1048576 0,
             Pthread_create 100 200 300 11, Pthread_attr_destroy]\<rparr>)"
  by (simp add: launch_eval)

lemma launch_succeeds_at_sys0:
  "thread_launch (plat 0 0 0 0 0 0 0) 100 200 300 sys0 =
     (0, sys0\<lparr>calls := [Pthread_attr_init 0, Pthread_attr_setstacksize 1048576 0,
             Pthread_create 100 200 300 0, Pthread_attr_destroy],
           threads := [\<lparr>tid = 42, start_routine = 200, arg = 300, stack = 1048576\<rparr>],
           mem := [100 \<mapsto> 42]\<rparr>)"
  by (simp add: launch_eval)

subsection \<open>\<open>thread_launch\<close>: the return value\<close>



subsection \<open>\<open>thread_launch\<close>: cleanup\<close>

text \<open>
  Claim C2. On every return of \<open>thread_launch\<close> the attribute object it initialised has
  been destroyed: the number of live attribute objects is what it was before the call,
  and whenever \<open>pthread_attr_init\<close> succeeded, \<open>pthread_attr_destroy\<close> is called exactly
  once and is the last call made; when the initialisation failed there is nothing to
  destroy and nothing is destroyed. On failure the threads are those that ran before.
\<close>

theorem thread_launch_releases_attributes:
  assumes "thread_launch p thread function data s = (result, s')"
  shows "live_attrs s' = live_attrs s \<and>
     (Pthread_attr_init 0 \<in> set (new_calls s s') \<longrightarrow>
        last (new_calls s s') = Pthread_attr_destroy \<and>
        count_list (new_calls s s') Pthread_attr_destroy = 1) \<and>
     (Pthread_attr_init 0 \<notin> set (new_calls s s') \<longrightarrow>
        Pthread_attr_destroy \<notin> set (new_calls s s')) \<and>
     (result \<noteq> 0 \<longrightarrow> threads s' = threads s)"
  using assms
  by - (rule thread_launch_cases [of p thread "function" data s], auto)

text \<open>
  At a platform whose \<open>pthread_create\<close> answers 11 (\<open>EAGAIN\<close>): failure, the attributes
  destroyed, no thread.
\<close>

theorem thread_launch_releases_attributes_witness:
  "fst (thread_launch (plat 0 0 11 0 0 0 0) 100 200 300 sys0) \<noteq> 0 \<and>
   live_attrs (snd (thread_launch (plat 0 0 11 0 0 0 0) 100 200 300 sys0)) = 0 \<and>
   last (calls (snd (thread_launch (plat 0 0 11 0 0 0 0) 100 200 300 sys0))) =
     Pthread_attr_destroy \<and>
   threads (snd (thread_launch (plat 0 0 11 0 0 0 0) 100 200 300 sys0)) = []"
  using thread_launch_releases_attributes [OF launch_create_fails_at_sys0]
  by (simp add: launch_create_fails_at_sys0) (simp add: sys0_def)

subsection \<open>\<open>thread_launch\<close>: failures and their diagnostics\<close>

text \<open>
  Claim C3. A failure of \<open>thread_launch\<close> is classified by the underlying step that
  failed: \<open>AttributeInitError\<close> when the platform fails \<open>pthread_attr_init\<close>,
  \<open>AttributeConfigError\<close> when it rejects the stack size in
  \<open>pthread_attr_setstacksize\<close>, \<open>CreateError\<close> when it fails \<open>pthread_create\<close>.
  Whenever the platform fails a step, \<open>thread_launch\<close> returns the non-zero status of
  the first such step and logs exactly one diagnostic, the one that names the failed
  call and carries its status; the calls it has made show the same failed step. When the
  platform fails no step it returns zero and logs nothing. No underlying call is made
  twice, so nothing is retried.
\<close>

theorem thread_launch_classifies_failure:
  assumes "thread_launch p thread function data s = (result, s')"
  shows "mclog s' = mclog s @ new_log s s' \<and>
     distinct (map called (new_calls s s')) \<and>
     failed_step (new_calls s s') = launch_failure p function data s \<and>
     (case launch_failure p function data s of
        None \<Rightarrow> result = 0 \<and> new_log s s' = []
      | Some e \<Rightarrow> result \<noteq> 0 \<and> result = status_of e \<and> new_log s s' = [diagnostic e])"
proof (cases "attr_init_status p s = 0")
  case False
  with assms thread_launch_init_fails [OF refl False, of thread "function" data]
  show ?thesis
    by (auto simp add: launch_failure_def)
next
  case init_ok: True
  show ?thesis
  proof (cases "attr_setstacksize_status p (after_init s) (thread_stack_size s) = 0")
    case False
    with assms init_ok
      thread_launch_setstacksize_fails [OF init_ok refl False, of thread "function" data]
    show ?thesis
      by (auto simp add: launch_failure_def)
  next
    case set_ok: True
    obtain r t where c:
      "create_outcome p (after_setstacksize s) \<lparr>stacksize = thread_stack_size s\<rparr> function data
        = (r, t)"
      by (cases "create_outcome p (after_setstacksize s) \<lparr>stacksize = thread_stack_size s\<rparr>
                   function data")
    show ?thesis
    proof (cases "r = 0")
      case False
      with assms init_ok set_ok c
        thread_launch_create_fails [OF init_ok set_ok c False, of thread]
      show ?thesis
        by (auto simp add: launch_failure_def)
    next
      case True
      with assms init_ok set_ok c
        thread_launch_succeeds [OF init_ok set_ok c [unfolded True], of thread]
      show ?thesis
        by (auto simp add: launch_failure_def)
    qed
  qed
qed

text \<open>
  One platform for each class: \<open>pthread_attr_init\<close> answers 12 (\<open>ENOMEM\<close>),
  \<open>pthread_attr_setstacksize\<close> answers 22 (\<open>EINVAL\<close>), \<open>pthread_create\<close> answers 11
  (\<open>EAGAIN\<close>); and one that fails nothing.
\<close>

lemma launch_failure_at_sys0:
  "launch_failure (plat 12 0 0 0 0 0 0) 200 300 sys0 = Some (AttributeInitError 12)"
  "launch_failure (plat 0 22 0 0 0 0 0) 200 300 sys0 = Some (AttributeConfigError 22)"
  "launch_failure (plat 0 0 11 0 0 0 0) 200 300 sys0 = Some (CreateError 11)"
  "launch_failure (plat 0 0 0 0 0 0 0) 200 300 sys0 = None"
  by (simp_all add: launch_failure_def plat_def)

theorem thread_launch_classifies_failure_witness:
  "launch_failure (plat 12 0 0 0 0 0 0) 200 300 sys0 = Some (AttributeInitError 12) \<and>
   fst (thread_launch (plat 12 0 0 0 0 0 0) 100 200 300 sys0) = 12 \<and>
   mclog (snd (thread_launch (plat 12 0 0 0 0 0 0) 100 200 300 sys0)) =
     [(''Could not initialize the thread attribute structure. {pthread_attr_init = %i}'', 12)] \<and>
   launch_failure (plat 0 22 0 0 0 0 0) 200 300 sys0 = Some (AttributeConfigError 22) \<and>
   fst (thread_launch (plat 0 22 0 0 0 0 0) 100 200 300 sys0) = 22 \<and>
   mclog (snd (thread_launch (plat 0 22 0 0 0 0 0) 100 200 300 sys0)) =
     [(''Could not set the stack size correctly. {pthread_attr_setstacksize = %i}'', 22)] \<and>
   launch_failure (plat 0 0 11 0 0 0 0) 200 300 sys0 = Some (CreateError 11) \<and>
   fst (thread_launch (plat 0 0 11 0 0 0 0) 100 200 300 sys0) = 11 \<and>
   mclog (snd (thread_launch (plat 0 0 11 0 0 0 0) 100 200 300 sys0)) =
     [(''Could not initialize a new thread. {pthread_create = %i}'', 11)] \<and>
   launch_failure (plat 0 0 0 0 0 0 0) 200 300 sys0 = None \<and>
   fst (thread_launch (plat 0 0 0 0 0 0 0) 100 200 300 sys0) = 0 \<and>
   mclog (snd (thread_launch (plat 0 0 0 0 0 0 0) 100 200 300 sys0)) = []"
proof -
  have "mclog sys0 = []"
    by (simp add: sys0_def)
  with thread_launch_classifies_failure [OF launch_init_fails_at_sys0]
    thread_launch_classifies_failure [OF launch_setstacksize_fails_at_sys0]
    thread_launch_classifies_failure [OF launch_create_fails_at_sys0]
    thread_launch_classifies_failure [OF launch_succeeds_at_sys0]
  show ?thesis
    by (simp add: launch_failure_at_sys0 launch_init_fails_at_sys0
        launch_setstacksize_fails_at_sys0 launch_create_fails_at_sys0 launch_succeeds_at_sys0)
qed

subsection \<open>\<open>thread_launch\<close>: the stack size\<close>

text \<open>
  Claim C9. The stack size \<open>thread_launch\<close> applies is the process-wide configuration
  value \<open>magma_core.system.thread_stack_size\<close> as it is when the launch starts: every
  \<open>pthread_attr_setstacksize\<close> call carries that value, one is made whenever the
  attributes were initialised, and a thread that is started has a stack of that size.
  The function has no stack-size parameter, does not change the configuration, and calls
  nothing that configures an attribute other than \<open>pthread_attr_setstacksize\<close>.
\<close>

theorem thread_launch_stack_size:
  assumes "thread_launch p thread function data s = (result, s')"
  shows "thread_stack_size s' = thread_stack_size s \<and>
     set (map called (new_calls s s')) \<subseteq>
       {''pthread_attr_init'', ''pthread_attr_setstacksize'', ''pthread_create'',
        ''pthread_attr_destroy''} \<and>
     (\<forall>n r. Pthread_attr_setstacksize n r \<in> set (new_calls s s') \<longrightarrow>
        n = thread_stack_size s) \<and>
     (Pthread_attr_init 0 \<in> set (new_calls s s') \<longrightarrow>
        (\<exists>r. Pthread_attr_setstacksize (thread_stack_size s) r \<in> set (new_calls s s'))) \<and>
     (result = 0 \<longrightarrow>
        (\<exists>t. threads s' = threads s @
           [\<lparr>tid = t, start_routine = function, arg = data, stack = thread_stack_size s\<rparr>]))"
  using assms
  by - (rule thread_launch_cases [of p thread "function" data s], auto)

text \<open>A successful launch with a configured stack size of one mebibyte.\<close>

theorem thread_launch_stack_size_witness:
  "fst (thread_launch (plat 0 0 0 0 0 0 0) 100 200 300 sys0) = 0 \<and>
   thread_stack_size sys0 = 1048576 \<and>
   map stack (threads (snd (thread_launch (plat 0 0 0 0 0 0 0) 100 200 300 sys0))) = [1048576] \<and>
   Pthread_attr_setstacksize 1048576 0 \<in>
     set (calls (snd (thread_launch (plat 0 0 0 0 0 0 0) 100 200 300 sys0)))"
proof -
  have "thread_stack_size sys0 = 1048576"
    by (simp add: sys0_def)
  with thread_launch_stack_size [OF launch_succeeds_at_sys0] show ?thesis
    by (simp add: launch_succeeds_at_sys0)
qed

subsection \<open>\<open>thread_alloc\<close>: the handle storage\<close>

lemmas alloc_eval = thread_alloc_def mm_alloc_def mm_free_def NULL_def Let_def

lemma alloc_no_memory_at_sys0:
  "thread_alloc (plat 0 0 0 0 0 0 0) 200 300 sys0 =
     (NULL, sys0\<lparr>mclog := [(''Could not allocate %zu bytes to hold the pthread_t structure.'', 8)],
             calls := [Mm_alloc 8 0]\<rparr>)"
  by (simp add: alloc_eval mclog_pedantic_def plat_def sys0_def)

lemma alloc_create_fails_at_sys0:
  "thread_alloc (plat 0 0 11 0 0 0 4096) 200 300 sys0 =
     (NULL, sys0\<lparr>mclog := [(''Could not initialize a new thread. {pthread_create = %i}'', 11),
               (''An error occurred while attempting to spawn the thread. {thread_init = %i}'', 11)],
             calls := [Mm_alloc 8 4096, Pthread_attr_init 0, Pthread_attr_setstacksize 1048576 0,
               Pthread_create 4096 200 300 11, Pthread_attr_destroy, Mm_free 4096]\<rparr>)"
  by (simp add: alloc_eval launch_eval)

text \<open>
  Claim C4. \<open>thread_alloc\<close> attempts the allocation of the handle storage before
  anything else: \<open>mm_alloc\<close> is its first call. If the allocation fails it returns
  \<open>NULL\<close> and makes no further call, so no thread is created. If the allocation succeeds
  and \<open>NULL\<close> is returned all the same, a step of the launch has failed and the last call
  is the \<open>mm_free\<close> of the block just allocated, which is then no longer allocated. So a
  failure leaves no block allocated that was not allocated before, and starts no thread.
  On success the block returned is the one allocated.
\<close>

theorem thread_alloc_releases_storage:
  assumes "thread_alloc p function data s = (result, s')"
  shows "calls s' = calls s @ new_calls s s' \<and>
         (\<exists>a rest. new_calls s s' = Mm_alloc (sizeof_pthread_t p) a # rest \<and>
            (a = NULL \<longrightarrow> result = NULL \<and> rest = []) \<and>
            (a \<noteq> NULL \<and> result = NULL \<longrightarrow>
               failed_step rest \<noteq> None \<and> last rest = Mm_free a \<and> a \<notin> allocated s') \<and>
            (result \<noteq> NULL \<longrightarrow> result = a \<and> a \<in> allocated s' \<and> failed_step rest = None)) \<and>
         (result = NULL \<longrightarrow> threads s' = threads s \<and> allocated s' \<subseteq> allocated s)"
proof (cases "alloc_outcome p s (sizeof_pthread_t p) = NULL")
  case True
  with assms show ?thesis
    by (auto simp add: thread_alloc_def mm_alloc_def mclog_pedantic_def Let_def)
next
  case False
  define a where "a = alloc_outcome p s (sizeof_pthread_t p)"
  define s1 where "s1 = snd (mm_alloc p (sizeof_pthread_t p) s)"
  have m: "mm_alloc p (sizeof_pthread_t p) s = (a, s1)"
    by (simp add: a_def s1_def mm_alloc_def Let_def)
  have s1: "calls s1 = calls s @ [Mm_alloc (sizeof_pthread_t p) a]"
    "allocated s1 = insert a (allocated s)" "threads s1 = threads s"
    using False by (simp_all add: s1_def mm_alloc_def a_def Let_def)
  have a: "a \<noteq> NULL"
    using False by (simp add: a_def)
  show ?thesis
    using assms a s1
    by - (rule thread_launch_cases [of p a "function" data s1],
        auto simp add: thread_alloc_def m mm_free_def mclog_pedantic_def)
qed


text \<open>
  The allocator hands out the block at 4096 and \<open>pthread_create\<close> answers 11
  (\<open>EAGAIN\<close>): the block is freed again before \<open>NULL\<close> is returned.
\<close>

theorem thread_alloc_releases_storage_witness:
  "fst (thread_alloc (plat 0 0 11 0 0 0 4096) 200 300 sys0) = NULL \<and>
   hd (calls (snd (thread_alloc (plat 0 0 11 0 0 0 4096) 200 300 sys0))) = Mm_alloc 8 4096 \<and>
   last (calls (snd (thread_alloc (plat 0 0 11 0 0 0 4096) 200 300 sys0))) = Mm_free 4096 \<and>
   allocated (snd (thread_alloc (plat 0 0 11 0 0 0 4096) 200 300 sys0)) = {} \<and>
   threads (snd (thread_alloc (plat 0 0 11 0 0 0 4096) 200 300 sys0)) = []"
proof -
  have "allocated sys0 = {}" "threads sys0 = []"
    by (simp_all add: sys0_def)
  with thread_alloc_releases_storage [OF alloc_create_fails_at_sys0] show ?thesis
    by (simp add: alloc_create_fails_at_sys0)
qed

subsection \<open>\<open>thread_join\<close> and \<open>thread_result\<close>\<close>

lemmas join_eval = thread_join_def thread_result_def pthread_join_def mclog_pedantic_def NULL_def

text \<open>
  Claim C7. From the same state and for the same handle, \<open>thread_join\<close> and
  \<open>thread_result\<close> make the same underlying \<open>pthread_join\<close> call, apart from the
  pointer that receives the exit value, and return the same status, the one the platform
  answers. Both log the same diagnostic exactly when that status is non-zero.
  \<open>thread_join\<close> passes \<open>NULL\<close> and stores nothing; \<open>thread_result\<close> passes the caller's
  pointer, through which a successful join stores the exit value. The two final states
  differ in nothing else.
\<close>

theorem thread_join_result_equivalent:
  assumes "thread_join p thread s = (ret, s1)"
    and "thread_result p thread result s = (ret', s2)"
  shows "ret' = ret \<and> ret = fst (join_outcome p s thread) \<and>
     calls s1 = calls s @ [Pthread_join thread NULL ret] \<and>
     calls s2 = calls s @ [Pthread_join thread result ret] \<and>
     mclog s1 = mclog s @
       (if ret \<noteq> 0
        then [(''Could not join to the requested thread. { pthread_join = %i }'', ret)]
        else []) \<and>
     mclog s2 = mclog s1 \<and>
     mem s1 = mem s \<and>
     mem s2 = (if ret = 0 \<and> result \<noteq> NULL
               then (mem s)(result \<mapsto> snd (join_outcome p s thread)) else mem s) \<and>
     s2 = s1\<lparr>calls := calls s2, mem := mem s2\<rparr>"
  using assms
  by (cases "join_outcome p s thread") (auto simp add: join_eval)

text \<open>
  A successful join of thread 42 with exit value 99 and result pointer 500, and a join
  that fails with status 3.
\<close>

lemma join_fails_at_sys0:
  "thread_join (plat 0 0 0 3 0 0 0) 42 sys0 =
     (3, sys0\<lparr>mclog := [(''Could not join to the requested thread. { pthread_join = %i }'', 3)],
            calls := [Pthread_join 42 0 3]\<rparr>)"
  by (simp add: join_eval plat_def sys0_def)

lemma result_fails_at_sys0:
  "thread_result (plat 0 0 0 3 0 0 0) 42 500 sys0 =
     (3, sys0\<lparr>mclog := [(''Could not join to the requested thread. { pthread_join = %i }'', 3)],
            calls := [Pthread_join 42 500 3]\<rparr>)"
  by (simp add: join_eval plat_def sys0_def)

lemma join_succeeds_at_sys0:
  "thread_join (plat 0 0 0 0 0 0 0) 42 sys0 = (0, sys0\<lparr>calls := [Pthread_join 42 0 0]\<rparr>)"
  by (simp add: join_eval plat_def sys0_def)

lemma result_succeeds_at_sys0:
  "thread_result (plat 0 0 0 0 0 0 0) 42 500 sys0 =
     (0, sys0\<lparr>calls := [Pthread_join 42 500 0], mem := [500 \<mapsto> 99]\<rparr>)"
  by (simp add: join_eval plat_def sys0_def)

theorem thread_join_result_equivalent_witness:
  "fst (thread_join (plat 0 0 0 0 0 0 0) 42 sys0) =
     fst (thread_result (plat 0 0 0 0 0 0 0) 42 500 sys0) \<and>
   mem (snd (thread_join (plat 0 0 0 0 0 0 0) 42 sys0)) 500 = None \<and>
   mem (snd (thread_result (plat 0 0 0 0 0 0 0) 42 500 sys0)) 500 = Some 99 \<and>
   mclog (snd (thread_join (plat 0 0 0 3 0 0 0) 42 sys0)) =
     mclog (snd (thread_result (plat 0 0 0 3 0 0 0) 42 500 sys0))"
proof -
  have "mem sys0 500 = None" "snd (join_outcome (plat 0 0 0 0 0 0 0) sys0 42) = 99"
    by (simp_all add: sys0_def plat_def)
  with thread_join_result_equivalent [OF join_succeeds_at_sys0 result_succeeds_at_sys0]
    thread_join_result_equivalent [OF join_fails_at_sys0 result_fails_at_sys0]
  show ?thesis
    by (simp add: join_succeeds_at_sys0 result_succeeds_at_sys0 join_fails_at_sys0
        result_fails_at_sys0)
qed

subsection \<open>\<open>thread_signal\<close>\<close>

text \<open>
  Claim C6. For every handle and signal number \<open>thread_signal\<close> logs nothing, makes the
  one \<open>pthread_kill\<close> call and returns its status: non-zero exactly when the underlying
  delivery failed, zero otherwise. When \<open>pthread_kill\<close> fails (no such thread, invalid
  signal number) is the platform's to say.
\<close>

theorem thread_signal_silent:
  assumes "thread_signal p thread signal s = (ret, s')"
  shows "ret = kill_status p s thread signal \<and>
     (ret \<noteq> 0 \<longleftrightarrow> kill_status p s thread signal \<noteq> 0) \<and>
     mclog s' = mclog s \<and>
     s' = s\<lparr>calls := calls s @ [Pthread_kill thread signal ret]\<rparr>"
  using assms by (auto simp add: thread_signal_def pthread_kill_def Let_def)

text \<open>Signal 15 to a thread the platform does not know: status 3, nothing logged.\<close>

lemma signal_fails_at_sys0:
  "thread_signal (plat 0 0 0 0 3 0 0) 42 15 sys0 = (3, sys0\<lparr>calls := [Pthread_kill 42 15 3]\<rparr>)"
  by (simp add: thread_signal_def pthread_kill_def plat_def sys0_def)

theorem thread_signal_silent_witness:
  "fst (thread_signal (plat 0 0 0 0 3 0 0) 42 15 sys0) = 3 \<and>
   mclog (snd (thread_signal (plat 0 0 0 0 3 0 0) 42 15 sys0)) = []"
proof -
  have "mclog sys0 = []"
    by (simp add: sys0_def)
  with thread_signal_silent [OF signal_fails_at_sys0] show ?thesis
    by (simp add: signal_fails_at_sys0)
qed

subsection \<open>\<open>thread_cancel_enable\<close> and \<open>thread_cancel_disable\<close>\<close>

text \<open>
  Claim C8. \<open>thread_cancel_enable\<close> and \<open>thread_cancel_disable\<close> return no value and
  have no error path. Each makes exactly one \<open>pthread_setcancelstate\<close> call, to the
  enabled and to the disabled state respectively; the state afterwards is the state
  before with that call recorded and the calling thread's cancelability set, so nothing
  is logged and nothing else changes.
\<close>

theorem thread_cancel_enable_disable:
  "thread_cancel_enable s =
     ((), s\<lparr>calls := calls s @ [Pthread_setcancelstate PTHREAD_CANCEL_ENABLE],
            cancelstate := PTHREAD_CANCEL_ENABLE\<rparr>) \<and>
   thread_cancel_disable s =
     ((), s\<lparr>calls := calls s @ [Pthread_setcancelstate PTHREAD_CANCEL_DISABLE],
            cancelstate := PTHREAD_CANCEL_DISABLE\<rparr>)"
  by (simp add: thread_cancel_enable_def thread_cancel_disable_def pthread_setcancelstate_def)

subsection \<open>\<open>thread_cancel\<close>\<close>

lemmas cancel_eval = thread_cancel_def pthread_cancel_def mclog_pedantic_def Let_def

text \<open>
  Claim C1 says that \<open>thread_cancel\<close> returns zero when the target has already
  terminated. It does not: in both builds the status of \<open>pthread_cancel\<close>, here \<open>ESRCH\<close>,
  is returned as it is.
\<close>

theorem thread_cancel_exited_counterexample:
  "target_already_exited (plat 0 0 0 0 0 ESRCH 0) sys0 42 \<and>
   fst (thread_cancel True (plat 0 0 0 0 0 ESRCH 0) 42 sys0) \<noteq> 0 \<and>
   fst (thread_cancel False (plat 0 0 0 0 0 ESRCH 0) 42 sys0) \<noteq> 0"
  by (simp add: target_already_exited_def cancel_eval plat_def ESRCH_def)

text \<open>
  Claim C1, amended. For every handle whose target thread has already terminated,
  \<open>thread_cancel\<close> returns \<open>ESRCH\<close>, the non-zero status of the underlying call,
  unchanged, in either build; the case is benign only in that nothing is logged for it:
  the state afterwards differs from the state before by the recorded call alone.
\<close>

theorem thread_cancel_exited_returns_ESRCH:
  assumes "target_already_exited p s thread"
  shows "thread_cancel MAGMA_PEDANTIC p thread s =
      (ESRCH, s\<lparr>calls := calls s @ [Pthread_cancel thread ESRCH]\<rparr>) \<and> ESRCH \<noteq> 0"
  using assms by (simp add: target_already_exited_def cancel_eval) (simp add: ESRCH_def)

lemma exited_at_sys0: "target_already_exited (plat 0 0 0 0 0 3 0) sys0 42"
  by (simp add: target_already_exited_def plat_def ESRCH_def)

theorem thread_cancel_exited_returns_ESRCH_witness:
  "fst (thread_cancel True (plat 0 0 0 0 0 3 0) 42 sys0) = 3 \<and>
   mclog (snd (thread_cancel True (plat 0 0 0 0 0 3 0) 42 sys0)) = []"
  using thread_cancel_exited_returns_ESRCH [OF exited_at_sys0, of True]
  by (simp add: ESRCH_def sys0_def)

text \<open>
  Claim C5 says that a diagnostic is logged if and only if \<open>pthread_cancel\<close> fails with a
  status other than \<open>ESRCH\<close>. In a build without \<open>MAGMA_PEDANTIC\<close> the failure with
  status 22 (\<open>EINVAL\<close>) is not logged.
\<close>

theorem thread_cancel_unlogged_counterexample:
  "fst (pthread_cancel (plat 0 0 0 0 0 22 0) 42 sys0) = 22 \<and> (22::int) \<noteq> 0 \<and> 22 \<noteq> ESRCH \<and>
   new_log sys0 (snd (thread_cancel False (plat 0 0 0 0 0 22 0) 42 sys0)) = []"
  by (simp add: cancel_eval plat_def ESRCH_def new_log_def)

text \<open>
  Claim C5, amended. In a build with \<open>MAGMA_PEDANTIC\<close>, \<open>thread_cancel\<close> logs one
  diagnostic, carrying the status, if and only if \<open>pthread_cancel\<close> fails with a status
  other than \<open>ESRCH\<close>; in a build without it, \<open>thread_cancel\<close> logs nothing. The
  \<open>ESRCH\<close> case is logged in neither build. The status returned is that of
  \<open>pthread_cancel\<close> in both.
\<close>

theorem thread_cancel_diagnostic:
  assumes "thread_cancel MAGMA_PEDANTIC p thread s = (result, s')"
  shows "result = cancel_status p s thread \<and>
     mclog s' = mclog s @
       (if MAGMA_PEDANTIC \<and> result \<noteq> 0 \<and> result \<noteq> ESRCH
        then [(''Could not cancel the requested thread. {pthread_cancel = %i}'', result)]
        else [])"
  using assms by (auto simp add: cancel_eval split: if_splits)

lemma cancel_fails_at_sys0:
  "thread_cancel True (plat 0 0 0 0 0 22 0) 42 sys0 =
     (22, sys0\<lparr>mclog := [(''Could not cancel the requested thread. {pthread_cancel = %i}'', 22)],
             calls := [Pthread_cancel 42 22]\<rparr>)"
  by (simp add: cancel_eval plat_def sys0_def ESRCH_def)

theorem thread_cancel_diagnostic_witness:
  "mclog (snd (thread_cancel True (plat 0 0 0 0 0 22 0) 42 sys0)) =
     [(''Could not cancel the requested thread. {pthread_cancel = %i}'', 22)]"
proof -
  have "mclog sys0 = []"
    by (simp add: sys0_def)
  with thread_cancel_diagnostic [OF cancel_fails_at_sys0] show ?thesis
    by (simp add: cancel_fails_at_sys0 ESRCH_def)
qed

end
